theory Spec2Isabelle
  imports Main "HOL-Library.Multiset" "HOL-Library.Word"
begin

section \<open>The fee-grant faucet: data model\<close>

text \<open>
  The development follows \<open>src/server.ts\<close> (the queueing revision of the server, the
  one that defines \<open>check_queue\<close> and the four-component \<open>Enqueued\<close> tuple).

  A \<open>Uint8Array\<close> is a list of 8-bit words, \<open>bigint\<close> is \<open>int\<close>, strings are
  \<open>string\<close>. A deferred promise's resolver \<open>fke_granted\<close> is a handle (a natural
  number): \<open>defer()\<close> creates a fresh one at every \<open>enqueue\<close>, so the handle also
  stands for the identity of the tuple object that \<open>indexOf\<close> compares.
\<close>

type_synonym bytes = "8 word list"

datatype error = Error string

record Meta =
  codespace :: "string option"
  code :: "int option"
  log :: "string option"

text \<open>\<open>TxResultTuple\<close>: \<open>[xc_code, sx_res, g_meta, atu8_result, h_events]\<close>.\<close>

record TxResultTuple =
  xc_code :: int
  sx_res :: string
  g_meta :: "Meta option"
  atu8_result :: bytes
  h_events :: "(string \<times> string list) list"

text \<open>The tuple type \<open>Enqueued\<close> of the source.\<close>

record Enqueued =
  atu8_msg :: bytes
  xg_limit :: int
  fke_granted :: nat
  sa_grantee :: string

text \<open>\<open>SlimAuthInfo\<close>: account number and sequence, both decimal strings.\<close>

type_synonym SlimAuthInfo = "string \<times> string"

text \<open>
  One call of \<open>create_and_sign_tx_direct\<close>: the messages, the gas limit (the fees
  \<open>exec_fees(xg_limit, X_GAS_PRICE)\<close> are a function of it) and the auth override
  (\<open>None\<close> is the source's \<open>0\<close>, automatic).
\<close>

record SignCall =
  c_msgs :: "bytes list"
  c_limit :: int
  c_auth :: "SlimAuthInfo option"

text \<open>
  The collaborators outside the repository. Each call that can throw returns a sum, \<open>Inl\<close>
  the thrown error. The chain's answers change from attempt to attempt, so the signing,
  broadcasting and auth functions also take the attempt number \<open>i_retry\<close>.
\<close>

record externals =
  safe_bytes_to_base64 :: "bytes \<Rightarrow> string option"
  create_and_sign_tx_direct :: "nat \<Rightarrow> SignCall \<Rightarrow> error + bytes"
  broadcast_result :: "nat \<Rightarrow> bytes \<Rightarrow> error + TxResultTuple"
  auth :: "nat \<Rightarrow> error + SlimAuthInfo"

section \<open>The batch builder: the first \<open>reduce\<close> of \<open>check_queue\<close>\<close>

text \<open>
  \<open>remove\<close> of the belt library, called for its effect on the array: \<open>indexOf\<close> then
  \<open>splice(i, 1)\<close>, in place; the first occurrence goes, the later elements move one index
  down. \<open>indexOf\<close> compares tuple objects by identity; two tuples made by \<open>enqueue\<close>
  differ in their promise, so equality of the records decides the same.
\<close>

definition remove :: "'a list \<Rightarrow> 'a \<Rightarrow> 'a list" where
  "remove a_items w_item = remove1 w_item a_items"

text \<open>
  The variables the callback of the reduce reads and writes: the array \<open>a_dequeued\<close> being
  reduced (the callback shortens it), the two sets, \<open>a_postponed\<close> and the accumulator
  \<open>a_out\<close>. \<open>a_accepted\<close> is a ghost: the tuples whose payload was pushed to \<open>a_out\<close>.
\<close>

record build_state =
  a_dequeued :: "Enqueued list"
  as_grantees :: "string set"
  as_msgs :: "string set"
  a_postponed :: "Enqueued list"
  a_out :: "bytes list"
  a_accepted :: "Enqueued list"

text \<open>\<open>safe_bytes_to_base64(atu8_msg) || ''\<close>\<close>

definition sb64 :: "externals \<Rightarrow> bytes \<Rightarrow> string" where
  "sb64 ext atu8 = (case safe_bytes_to_base64 ext atu8 of None \<Rightarrow> [] | Some s \<Rightarrow> s)"

definition reduce_callback :: "externals \<Rightarrow> build_state \<Rightarrow> Enqueued \<Rightarrow> build_state" where
  "reduce_callback ext st a_queued =
     (let sb64_msg = sb64 ext (atu8_msg a_queued) in
      if sb64_msg \<notin> as_msgs st then
        (let st1 = st\<lparr>as_msgs := insert sb64_msg (as_msgs st)\<rparr> in
         if sa_grantee a_queued \<in> as_grantees st1 then
           st1\<lparr>a_dequeued := remove (a_dequeued st1) a_queued,
               a_postponed := a_postponed st1 @ [a_queued]\<rparr>
         else
           st1\<lparr>as_grantees := insert (sa_grantee a_queued) (as_grantees st1),
               a_out := a_out st1 @ [atu8_msg a_queued],
               a_accepted := a_accepted st1 @ [a_queued]\<rparr>)
      else st)"

text \<open>
  \<open>Array.prototype.reduce\<close>: the length \<open>len\<close> is read once, before the first call; the
  index \<open>k\<close> runs from 0 to \<open>len - 1\<close>; an index that the array no longer has (the
  callback has shortened it) is passed over; the element handed to the callback is the one
  at index \<open>k\<close> at that moment.
\<close>

function reduce_loop :: "externals \<Rightarrow> nat \<Rightarrow> nat \<Rightarrow> build_state \<Rightarrow> build_state" where
  "reduce_loop ext len k st =
     (if k < len then
        (if k < length (a_dequeued st)
         then reduce_loop ext len (Suc k) (reduce_callback ext st (a_dequeued st ! k))
         else reduce_loop ext len (Suc k) st)
      else st)"
  by pat_completeness auto
termination
  by (relation "measure (\<lambda>(ext, len, k, st). len - k)") auto

definition build_batch :: "externals \<Rightarrow> Enqueued list \<Rightarrow> build_state" where
  "build_batch ext dq =
     reduce_loop ext (length dq) 0
       \<lparr>a_dequeued = dq, as_grantees = {}, as_msgs = {}, a_postponed = [], a_out = [],
        a_accepted = []\<rparr>"

text \<open>The second reduce: \<open>a_dequeued.reduce((xg_sum, [, xg]) => xg_sum + xg, 0n)\<close>.\<close>

definition sum_limits :: "Enqueued list \<Rightarrow> int" where
  "sum_limits dq = foldl (\<lambda>xg_sum q. xg_sum + xg_limit q) 0 dq"

section \<open>The retry loop\<close>

text \<open>
  \<open>/expected (\d+)/.exec(s)\<close>: the leftmost place where \<open>expected\<close>, one space and at least
  one decimal digit stand; the group is the longest run of digits there.
\<close>

definition is_digit :: "char \<Rightarrow> bool" where
  "is_digit c = (c \<in> set ''0123456789'')"

fun match_expected :: "string \<Rightarrow> string option" where
  "match_expected [] = None"
| "match_expected (c # cs) =
     (if take 9 (c # cs) = ''expected '' \<and> takeWhile is_digit (drop 9 (c # cs)) \<noteq> []
      then Some (takeWhile is_digit (drop 9 (c # cs)))
      else match_expected cs)"

text \<open>
  How the labelled loop \<open>RETRY_TRANSACTION\<close> is left: through the \<open>catch\<close> (with the error
  and the array \<open>a_dequeued\<close> as it stands), or through \<open>break\<close> after
  \<open>a_enqueued.push(...a_postponed)\<close> (with \<open>a_results\<close>, \<open>a_dequeued\<close> and the
  \<open>a_postponed\<close> of that last iteration).
\<close>

datatype loop_exit =
  Caught error "Enqueued list"
| Finished TxResultTuple "Enqueued list" "Enqueued list"

text \<open>
  The condition under which the source reaches the regular expression: a truthy \<open>xc_code\<close>,
  \<open>g_meta?.codespace\<close> equal to \<open>'sdk'\<close>, \<open>32 === g_meta.code\<close> and \<open>i_retry < 2\<close>. The
  result is the match on \<open>g_meta.log || ''\<close>.
\<close>

definition m_expected :: "nat \<Rightarrow> TxResultTuple \<Rightarrow> string option" where
  "m_expected i_retry a_results =
     (if xc_code a_results \<noteq> 0 then
        (case g_meta a_results of
           None \<Rightarrow> None
         | Some m \<Rightarrow>
             if codespace m = Some ''sdk'' then
               (if code m = Some 32 then
                  (if i_retry < 2 then
                     match_expected (case log m of None \<Rightarrow> [] | Some l \<Rightarrow> l)
                   else None)
                else None)
             else None)
      else None)"

text \<open>
  One iteration of the loop per call. The first component of the result lists the calls of
  \<open>create_and_sign_tx_direct\<close> in order, one per attempt.
\<close>

function RETRY_TRANSACTION ::
  "externals \<Rightarrow> nat \<Rightarrow> Enqueued list \<Rightarrow> SlimAuthInfo option \<Rightarrow> SignCall list \<times> loop_exit" where
  "RETRY_TRANSACTION ext i_retry dq z_auth =
     (let st = build_batch ext dq;
          a_msgs = a_out st;
          dq1 = a_dequeued st;
          xg_lim = sum_limits dq1;
          call = \<lparr>c_msgs = a_msgs, c_limit = xg_lim, c_auth = z_auth\<rparr>
      in case create_and_sign_tx_direct ext i_retry call of
           Inl e_process \<Rightarrow> ([call], Caught e_process dq1)
         | Inr atu8_raw \<Rightarrow>
             (case broadcast_result ext i_retry atu8_raw of
                Inl e_process \<Rightarrow> ([call], Caught e_process dq1)
              | Inr a_results \<Rightarrow>
                  (case m_expected i_retry a_results of
                     None \<Rightarrow> ([call], Finished a_results dq1 (a_postponed st))
                   | Some sg_seq \<Rightarrow>
                       (if i_retry < 2 then
                          (case auth ext i_retry of
                             Inl e_process \<Rightarrow> ([call], Caught e_process dq1)
                           | Inr a_auth \<Rightarrow>
                               (let r = RETRY_TRANSACTION ext (Suc i_retry) dq1
                                          (Some (fst a_auth, sg_seq))
                                in (call # fst r, snd r)))
                        else ([call], Finished a_results dq1 (a_postponed st))))))"
  by pat_completeness auto
termination
  by (relation "measure (\<lambda>(ext, i_retry, dq, z_auth). 2 - i_retry)") auto

section \<open>The server state, \<open>enqueue\<close> and \<open>check_queue\<close>\<close>

text \<open>
  The module variables \<open>a_enqueued\<close> and \<open>c_clearing\<close>, and three ghosts: the counter that
  names the next deferred promise, the calls of the resolvers in order (\<open>Inl\<close> when the
  promise is rejected with an error, \<open>Inr\<close> when it is resolved with a result), and the
  calls of \<open>create_and_sign_tx_direct\<close> in order.
\<close>

record server =
  a_enqueued :: "Enqueued list"
  c_clearing :: nat
  next_defer :: nat
  settled :: "(nat \<times> (error + TxResultTuple)) list"
  signed :: "SignCall list"

definition enqueue :: "bytes \<Rightarrow> int \<Rightarrow> string \<Rightarrow> server \<Rightarrow> nat \<times> server" where
  "enqueue msg lim grantee s =
     (next_defer s,
      s\<lparr>a_enqueued := a_enqueued s @
           [\<lparr>atu8_msg = msg, xg_limit = lim, fke_granted = next_defer s, sa_grantee = grantee\<rparr>],
        next_defer := Suc (next_defer s)\<rparr>)"

text \<open>
  One run of \<open>check_queue\<close>, taken as a whole: no other task runs between its awaits.
\<close>

definition check_queue :: "externals \<Rightarrow> server \<Rightarrow> server" where
  "check_queue ext s =
     (if c_clearing s > 0 then s\<lparr>c_clearing := c_clearing s - 1\<rparr>
      else if a_enqueued s \<noteq> [] then
        (let r = RETRY_TRANSACTION ext 0 (a_enqueued s) None;
             s1 = s\<lparr>a_enqueued := [], signed := signed s @ fst r\<rparr>
         in case snd r of
              Caught e_process dq \<Rightarrow>
                s1\<lparr>settled := settled s1 @ map (\<lambda>q. (fke_granted q, Inl e_process)) dq\<rparr>
            | Finished a_results dq postponed \<Rightarrow>
                s1\<lparr>a_enqueued := a_enqueued s1 @ postponed,
                   settled := settled s1 @ map (\<lambda>q. (fke_granted q, Inr a_results)) dq,
                   c_clearing := 1\<rparr>)
      else s)"

section \<open>The claim procedure and its two routes\<close>

text \<open>
  The configuration read from the environment and the constants of the module:
  \<open>XG_ALLOWANCE\<close> (a non-zero \<open>bigint\<close>), the address of \<open>k_wallet\<close>, and the two gas
  limits.
\<close>

record config =
  XG_ALLOWANCE :: int
  k_wallet_addr :: string

definition XG_LIMIT_GRANT :: int where
  "XG_LIMIT_GRANT = 15000"

definition XG_LIMIT_REVOKE :: int where
  "XG_LIMIT_REVOKE = 15000"

text \<open>The type URL that the feegrant package exports for a basic allowance.\<close>

definition SI_MESSAGE_TYPE_COSMOS_FEEGRANT_BASIC_ALLOWANCE :: string where
  "SI_MESSAGE_TYPE_COSMOS_FEEGRANT_BASIC_ALLOWANCE = ''/cosmos.feegrant.v1beta1.BasicAllowance''"

text \<open>A template literal of a \<open>bigint\<close>: its decimal digits, with a sign when negative.\<close>

definition digit_char :: "nat \<Rightarrow> char" where
  "digit_char d = ''0123456789'' ! (d mod 10)"

function string_of_nat :: "nat \<Rightarrow> string" where
  "string_of_nat n =
     (if n < 10 then [digit_char n] else string_of_nat (n div 10) @ [digit_char (n mod 10)])"
  by pat_completeness auto
termination
  by (relation "measure id") auto

definition string_of_bigint :: "int \<Rightarrow> string" where
  "string_of_bigint i =
     (if i < 0 then CHR ''-'' # string_of_nat (nat (- i)) else string_of_nat (nat i))"

text \<open>
  The answer of the allowance query, as far as \<open>claim\<close> reads it: the response's
  \<open>allowance\<close> (the grant), its inner \<open>allowance\<close>, and there \<open>@type\<close>, \<open>spend_limit\<close> and
  \<open>expiration\<close>. An absent member is \<open>None\<close>.
\<close>

record Coin =
  denom :: string
  amount :: string

record Allowance =
  at_type :: string
  spend_limit :: "Coin list option"
  expiration :: "string option"

record Grant =
  allowance :: "Allowance option"

text \<open>
  The collaborators of \<open>claim\<close>: \<open>bech32_decode\<close> (it throws on a malformed address), the
  allowance query (\<open>None\<close> when the response has no \<open>allowance\<close>), \<open>new Date(s).getTime()\<close>
  (\<open>None\<close> is NaN), and the two message encoders: \<open>encode_revoke granter grantee\<close> and
  \<open>encode_grant granter grantee limits expiration\<close>, each already wrapped by
  \<open>encodeGoogleProtobufAny\<close>.
\<close>

record claim_externals =
  bech32_decode :: "string \<Rightarrow> error + bytes"
  queryCosmosFeegrantAllowance :: "string \<Rightarrow> string \<Rightarrow> error + Grant option"
  Date_getTime :: "string option \<Rightarrow> int option"
  encode_revoke :: "string \<Rightarrow> string \<Rightarrow> bytes"
  encode_grant :: "string \<Rightarrow> string \<Rightarrow> (string \<times> string) list \<Rightarrow> int \<Rightarrow> bytes"

text \<open>
  What \<open>d_res.code(n).send(body)\<close> sends: the status, the two headers set at the top of
  \<open>claim\<close>, and the body. A body is an object with an \<open>error\<close> member, the chain's response
  (\<open>parse_json_safe(sx_res) || sx_res\<close>), or the object with \<open>meta\<close> and \<open>events\<close>.
\<close>

datatype reply_body =
  ErrorBody string
| ChainResponse string
| Granted "Meta option" "(string \<times> string list) list"

record reply =
  status :: nat
  headers :: "(string \<times> string) list"
  body :: reply_body

definition send :: "nat \<Rightarrow> reply_body \<Rightarrow> reply" where
  "send n b =
     \<lparr>status = n,
      headers = [(''access-control-allow-origin'', ''*''),
                 (''access-control-allow-methods'', ''GET'')],
      body = b\<rparr>"

text \<open>
  \<open>claim\<close> is an async function: it runs until it replies, throws, or awaits the promise
  of an \<open>enqueue\<close>; it goes on when that promise is settled. \<open>Awaiting h w\<close> is the
  suspended call: \<open>h\<close> names the promise, \<open>w\<close> says which of the two awaits it is.
\<close>

datatype await_point = AwaitRevoke | AwaitGrant

datatype claim_status =
  Replied reply
| Thrown error
| Awaiting nat await_point

text \<open>The \<open>try\<close> block that verifies the address; \<open>False\<close> is the \<open>catch\<close>.\<close>

definition verify_address :: "claim_externals \<Rightarrow> string \<Rightarrow> bool" where
  "verify_address cx sa_addr =
     (if take 7 sa_addr \<noteq> ''secret1'' then False
      else (case bech32_decode cx sa_addr of
              Inl e_decode \<Rightarrow> False
            | Inr atu8_data \<Rightarrow> 20 = length atu8_data))"

text \<open>The part of \<open>claim\<close> from "generate message" to the await of the grant.\<close>

definition claim_grant ::
  "config \<Rightarrow> claim_externals \<Rightarrow> int \<Rightarrow> string \<Rightarrow> server \<Rightarrow> claim_status \<times> server" where
  "claim_grant cfg cx xt_now sa_addr s =
     (let atu8 = encode_grant cx (k_wallet_addr cfg) sa_addr
                   [(string_of_bigint 500000, ''uscrt'')] (xt_now + 24 * 3600000);
          r = enqueue atu8 XG_LIMIT_GRANT sa_addr s
      in (Awaiting (fst r) AwaitGrant, snd r))"

text \<open>\<open>a_limits?.[0]?.amount\<close>\<close>

definition first_amount :: "Coin list option \<Rightarrow> string option" where
  "first_amount a_limits =
     (case a_limits of None \<Rightarrow> None | Some [] \<Rightarrow> None | Some (c # cs) \<Rightarrow> Some (amount c))"

text \<open>\<open>claim\<close> up to its first reply, throw or await; \<open>sa_addr\<close> is the parameter \<open>sa_grantee\<close> of the source, \<open>xt_now\<close> is \<open>Date.now()\<close>.\<close>

definition claim ::
  "config \<Rightarrow> claim_externals \<Rightarrow> int \<Rightarrow> string \<Rightarrow> server \<Rightarrow> claim_status \<times> server" where
  "claim cfg cx xt_now sa_addr s =
     (if \<not> verify_address cx sa_addr
      then (Replied (send 400 (ErrorBody ''Invalid bech32 address'')), s)
      else
        (case queryCosmosFeegrantAllowance cx (k_wallet_addr cfg) sa_addr of
           Inl e \<Rightarrow> (Thrown e, s)
         | Inr None \<Rightarrow> claim_grant cfg cx xt_now sa_addr s
         | Inr (Some g) \<Rightarrow>
             (case allowance g of
                None \<Rightarrow> (Replied (send 500 (ErrorBody ''Discovered non-basic allowance'')), s)
              | Some g_allowance \<Rightarrow>
                  if SI_MESSAGE_TYPE_COSMOS_FEEGRANT_BASIC_ALLOWANCE \<noteq> at_type g_allowance
                  then (Replied (send 500 (ErrorBody ''Discovered non-basic allowance'')), s)
                  else
                    (let xt_remaining =
                           (case Date_getTime cx (expiration g_allowance) of
                              None \<Rightarrow> None
                            | Some xt_expiration \<Rightarrow> Some (xt_expiration - xt_now))
                     in if first_amount (spend_limit g_allowance)
                             = Some (string_of_bigint (XG_ALLOWANCE cfg))
                           \<and> (case xt_remaining of None \<Rightarrow> False | Some x \<Rightarrow> x > 3600000)
                        then (Replied (send 400
                                (ErrorBody ''Existing feegrant is full and hasn't expired yet'')), s)
                        else
                          (let atu8 = encode_revoke cx (k_wallet_addr cfg) sa_addr;
                               r = enqueue atu8 XG_LIMIT_REVOKE sa_addr s
                           in (Awaiting (fst r) AwaitRevoke, snd r))))))"

text \<open>
  \<open>claim\<close> from the moment the awaited promise is settled: rejected with an error
  (\<open>Inl\<close>, the await throws) or resolved with a result.
\<close>

definition claim_resume ::
  "config \<Rightarrow> claim_externals \<Rightarrow> int \<Rightarrow> string \<Rightarrow> await_point \<Rightarrow> error + TxResultTuple
     \<Rightarrow> server \<Rightarrow> claim_status \<times> server" where
  "claim_resume cfg cx xt_now sa_addr w settlement s =
     (case settlement of
        Inl e \<Rightarrow> (Thrown e, s)
      | Inr a_results \<Rightarrow>
          (case w of
             AwaitRevoke \<Rightarrow>
               if xc_code a_results \<noteq> 0
               then (Replied (send 425 (ErrorBody
                       (''Failed to revoke existing feegrant; reason: '' @ sx_res a_results))), s)
               else claim_grant cfg cx xt_now sa_addr s
           | AwaitGrant \<Rightarrow>
               if xc_code a_results \<noteq> 0
               then (Replied (send 550 (ChainResponse (sx_res a_results))), s)
               else (Replied (send 200 (Granted (g_meta a_results) (h_events a_results))), s)))"

text \<open>
  The two routes. \<open>GET /claim/:address\<close> reads \<open>d_req.params.address\<close>, \<open>POST /claim\<close>
  reads \<open>address\<close> of \<open>d_req.body\<close>; both then call \<open>claim\<close>.
\<close>

record get_request =
  params_address :: string

record post_request =
  body_address :: string

definition route_get ::
  "config \<Rightarrow> claim_externals \<Rightarrow> int \<Rightarrow> get_request \<Rightarrow> server \<Rightarrow> claim_status \<times> server" where
  "route_get cfg cx xt_now d_req s = claim cfg cx xt_now (params_address d_req) s"

definition route_post ::
  "config \<Rightarrow> claim_externals \<Rightarrow> int \<Rightarrow> post_request \<Rightarrow> server \<Rightarrow> claim_status \<times> server" where
  "route_post cfg cx xt_now d_req s = claim cfg cx xt_now (body_address d_req) s"

section \<open>Runs of the server\<close>

text \<open>
  What happens to the server from outside: a block tick (with the collaborators' answers
  during that tick) or a call of \<open>enqueue\<close>.
\<close>

datatype event =
  Tick externals
| Enqueue bytes int string

fun step :: "event \<Rightarrow> server \<Rightarrow> server" where
  "step (Tick ext) s = check_queue ext s"
| "step (Enqueue msg lim grantee) s = snd (enqueue msg lim grantee s)"

fun run :: "event list \<Rightarrow> server \<Rightarrow> server" where
  "run [] s = s"
| "run (e # es) s = run es (step e s)"

text \<open>
  A promise that was created (\<open>h\<close> is below the counter), is not settled, and whose tuple is
  no longer in \<open>a_enqueued\<close>: nothing of the server refers to it any more.
\<close>

definition forgotten :: "nat \<Rightarrow> server \<Rightarrow> bool" where
  "forgotten h s =
     (h < next_defer s \<and> h \<notin> set (map fke_granted (a_enqueued s))
      \<and> h \<notin> set (map fst (settled s)))"

text \<open>The two arrays a loop exit carries; the \<open>catch\<close> carries no postponed requests.\<close>

fun exit_dequeued :: "loop_exit \<Rightarrow> Enqueued list" where
  "exit_dequeued (Caught e dq) = dq"
| "exit_dequeued (Finished r dq pp) = dq"

fun exit_postponed :: "loop_exit \<Rightarrow> Enqueued list" where
  "exit_postponed (Caught e dq) = []"
| "exit_postponed (Finished r dq pp) = pp"

text \<open>
  The invariant of the batch builder: \<open>a_out\<close> holds the payloads of the accepted tuples,
  their grantees and encodings are in the two sets, and no grantee and no encoding occurs
  twice among them.
\<close>

definition builder_inv :: "externals \<Rightarrow> build_state \<Rightarrow> bool" where
  "builder_inv ext st =
     (a_out st = map atu8_msg (a_accepted st)
      \<and> sa_grantee ` set (a_accepted st) \<subseteq> as_grantees st
      \<and> sb64 ext ` set (a_out st) \<subseteq> as_msgs st
      \<and> distinct (map sa_grantee (a_accepted st))
      \<and> distinct (map (sb64 ext) (a_out st)))"

section \<open>Concrete inputs\<close>

text \<open>
  A request with a one-byte payload \<open>m\<close>, the gas limit of a grant, grantee \<open>g\<close> and
  promise \<open>h\<close>; a server whose queue holds the given requests and whose cooldown is over.
\<close>

definition request :: "8 word \<Rightarrow> string \<Rightarrow> nat \<Rightarrow> Enqueued" where
  "request m g h = \<lparr>atu8_msg = [m], xg_limit = 15000, fke_granted = h, sa_grantee = g\<rparr>"

definition server_of :: "Enqueued list \<Rightarrow> server" where
  "server_of q =
     \<lparr>a_enqueued = q, c_clearing = 0, next_defer = length q, settled = [], signed = []\<rparr>"

text \<open>
  Queues of requests for one grantee: two with different payloads; three with different
  payloads; four, of which the last two carry the same payload.
\<close>

definition q_pair :: "Enqueued list" where
  "q_pair = [request 1 ''secret1alice'' 0, request 2 ''secret1alice'' 1]"

definition q_three :: "Enqueued list" where
  "q_three =
     [request 1 ''secret1alice'' 0, request 2 ''secret1alice'' 1, request 3 ''secret1alice'' 2]"

definition q_four :: "Enqueued list" where
  "q_four =
     [request 1 ''secret1alice'' 0, request 2 ''secret1alice'' 1, request 3 ''secret1alice'' 2,
      request 3 ''secret1alice'' 3]"

definition tx_ok :: TxResultTuple where
  "tx_ok = \<lparr>xc_code = 0, sx_res = ''{}'', g_meta = None, atu8_result = [], h_events = []\<rparr>"

definition tx_mismatch :: TxResultTuple where
  "tx_mismatch =
     \<lparr>xc_code = 32, sx_res = ''account sequence mismatch'',
      g_meta = Some \<lparr>codespace = Some ''sdk'', code = Some 32,
                     log = Some ''account sequence mismatch, expected 5, got 4''\<rparr>,
      atu8_result = [], h_events = []\<rparr>"

text \<open>
  Collaborators for the examples. The encoder writes every byte as one character (it is
  one-to-one, as base64 is); signing returns the attempt number as the raw transaction.
  \<open>ext_ok\<close>: every broadcast succeeds. \<open>ext_retry\<close>: the first broadcast meets a sequence
  mismatch, the later ones succeed. \<open>ext_mismatch\<close>: every broadcast meets a sequence
  mismatch. \<open>ext_throw\<close>: signing throws.
\<close>

definition byte_text :: "bytes \<Rightarrow> string option" where
  "byte_text b = Some (map (\<lambda>w. char_of (unat w)) b)"

definition ext_ok :: externals where
  "ext_ok =
     \<lparr>safe_bytes_to_base64 = byte_text,
      create_and_sign_tx_direct = (\<lambda>i c. Inr [of_nat i]),
      broadcast_result = (\<lambda>i raw. Inr tx_ok),
      auth = (\<lambda>i. Inr (''7'', ''4''))\<rparr>"

definition ext_retry :: externals where
  "ext_retry =
     \<lparr>safe_bytes_to_base64 = byte_text,
      create_and_sign_tx_direct = (\<lambda>i c. Inr [of_nat i]),
      broadcast_result = (\<lambda>i raw. if i = 0 then Inr tx_mismatch else Inr tx_ok),
      auth = (\<lambda>i. Inr (''7'', ''4''))\<rparr>"

definition ext_mismatch :: externals where
  "ext_mismatch =
     \<lparr>safe_bytes_to_base64 = byte_text,
      create_and_sign_tx_direct = (\<lambda>i c. Inr [of_nat i]),
      broadcast_result = (\<lambda>i raw. Inr tx_mismatch),
      auth = (\<lambda>i. Inr (''7'', ''4''))\<rparr>"

definition ext_throw :: externals where
  "ext_throw =
     \<lparr>safe_bytes_to_base64 = byte_text,
      create_and_sign_tx_direct = (\<lambda>i c. Inl (Error ''fetch failed'')),
      broadcast_result = (\<lambda>i raw. Inr tx_ok),
      auth = (\<lambda>i. Inr (''7'', ''4''))\<rparr>"

text \<open>
  For \<open>claim\<close>: a configuration with the allowance amount 500000, and collaborators that
  decode one address to 20 bytes, one to 19 bytes and throw on every other; the first has
  a basic allowance of 500000 uscrt that expires at time 10000000.
\<close>

definition cfg0 :: config where
  "cfg0 = \<lparr>XG_ALLOWANCE = 500000, k_wallet_addr = ''secret1faucet''\<rparr>"

definition full_allowance :: Allowance where
  "full_allowance =
     \<lparr>at_type = ''/cosmos.feegrant.v1beta1.BasicAllowance'',
      spend_limit = Some [\<lparr>denom = ''uscrt'', amount = ''500000''\<rparr>],
      expiration = Some ''1970-01-01T02:46:40Z''\<rparr>"

definition cx0 :: claim_externals where
  "cx0 =
     \<lparr>bech32_decode = (\<lambda>a. if a = ''secret1alice'' then Inr (replicate 20 0)
                           else if a = ''secret1short'' then Inr (replicate 19 0)
                           else Inl (Error ''invalid checksum'')),
      queryCosmosFeegrantAllowance =
        (\<lambda>granter grantee. if grantee = ''secret1alice''
                            then Inr (Some \<lparr>allowance = Some full_allowance\<rparr>)
                            else Inr None),
      Date_getTime = (\<lambda>t. if t = Some ''1970-01-01T02:46:40Z'' then Some 10000000 else None),
      encode_revoke = (\<lambda>granter grantee. [1]),
      encode_grant = (\<lambda>granter grantee limits expiry. [2])\<rparr>"

section \<open>Properties of the batch builder\<close>

declare reduce_loop.simps [simp del]
declare RETRY_TRANSACTION.simps [simp del]
declare string_of_nat.simps [simp del]

lemma callback_mset:
  assumes "q \<in> set (a_dequeued st)"
  shows "mset (a_dequeued (reduce_callback ext st q)) + mset (a_postponed (reduce_callback ext st q))
         = mset (a_dequeued st) + mset (a_postponed st)"
  using assms by (simp add: reduce_callback_def Let_def remove_def)

text \<open>The builder only moves tuples from \<open>a_dequeued\<close> to \<open>a_postponed\<close>.\<close>

lemma reduce_loop_mset:
  "mset (a_dequeued (reduce_loop ext len k st)) + mset (a_postponed (reduce_loop ext len k st))
   = mset (a_dequeued st) + mset (a_postponed st)"
proof (induction ext len k st rule: reduce_loop.induct)
  case (1 ext len k st)
  show ?case
  proof (cases "k < len")
    case False
    then show ?thesis by (subst (1 2) reduce_loop.simps) simp
  next
    case True
    show ?thesis
    proof (cases "k < length (a_dequeued st)")
      case here: True
      then have "a_dequeued st ! k \<in> set (a_dequeued st)" by simp
      then show ?thesis
        using True here "1.IH"(1) by (subst (1 2) reduce_loop.simps) (simp add: callback_mset)
    next
      case gone: False
      then show ?thesis
        using True "1.IH"(2) by (subst (1 2) reduce_loop.simps) simp
    qed
  qed
qed

lemma build_batch_mset:
  "mset (a_dequeued (build_batch ext dq)) + mset (a_postponed (build_batch ext dq)) = mset dq"
  using reduce_loop_mset [of ext "length dq" 0] by (simp add: build_batch_def)

lemma build_batch_sets:
  "set (a_dequeued (build_batch ext dq)) \<union> set (a_postponed (build_batch ext dq)) = set dq"
proof -
  have "set_mset (mset (a_dequeued (build_batch ext dq)) + mset (a_postponed (build_batch ext dq)))
        = set_mset (mset dq)"
    by (simp only: build_batch_mset)
  then show ?thesis by simp
qed

lemma sum_limits_sum_list: "sum_limits dq = sum_list (map xg_limit dq)"
proof -
  have "foldl (\<lambda>xg_sum q. xg_sum + xg_limit q) a dq = a + sum_list (map xg_limit dq)" for a
    by (induction dq arbitrary: a) simp_all
  then show ?thesis by (simp add: sum_limits_def)
qed

lemma sum_limits_mset: "sum_limits dq = sum_mset (image_mset xg_limit (mset dq))"
  by (simp add: sum_limits_sum_list sum_mset_sum_list [symmetric])

lemma build_batch_limits:
  "sum_limits (a_dequeued (build_batch ext dq)) + sum_limits (a_postponed (build_batch ext dq))
   = sum_limits dq"
proof -
  have "sum_limits dq = sum_mset (image_mset xg_limit
          (mset (a_dequeued (build_batch ext dq)) + mset (a_postponed (build_batch ext dq))))"
    by (simp only: build_batch_mset sum_limits_mset)
  then show ?thesis by (simp add: sum_limits_mset)
qed

lemma callback_inv: "builder_inv ext st \<Longrightarrow> builder_inv ext (reduce_callback ext st q)"
  by (auto simp add: builder_inv_def reduce_callback_def Let_def image_subset_iff)

lemma reduce_loop_inv: "builder_inv ext st \<Longrightarrow> builder_inv ext (reduce_loop ext len k st)"
proof (induction ext len k st rule: reduce_loop.induct)
  case (1 ext len k st)
  then show ?case
    by (subst reduce_loop.simps) (simp add: callback_inv)
qed

lemma build_batch_inv: "builder_inv ext (build_batch ext dq)"
  unfolding build_batch_def by (rule reduce_loop_inv) (simp add: builder_inv_def)

text \<open>
  In every batch the builder produces, no grantee occurs twice among the accepted tuples
  and no payload occurs twice among the messages.
\<close>

lemma batch_is_accepted:
  "a_out (build_batch ext dq) = map atu8_msg (a_accepted (build_batch ext dq))"
  using build_batch_inv [of ext dq] by (simp add: builder_inv_def)

lemma batch_grantees_distinct: "distinct (map sa_grantee (a_accepted (build_batch ext dq)))"
  using build_batch_inv [of ext dq] by (simp add: builder_inv_def)

lemma batch_payloads_distinct: "distinct (a_out (build_batch ext dq))"
proof -
  have "distinct (map (sb64 ext) (a_out (build_batch ext dq)))"
    using build_batch_inv [of ext dq] unfolding builder_inv_def by blast
  then show ?thesis by (simp add: distinct_map)
qed

section \<open>Properties of the retry loop\<close>

lemma RETRY_calls_nonempty: "fst (RETRY_TRANSACTION ext i dq z) \<noteq> []"
  by (subst RETRY_TRANSACTION.simps) (simp add: Let_def split: sum.splits option.splits)

lemma RETRY_last_attempt: "2 \<le> i \<Longrightarrow> length (fst (RETRY_TRANSACTION ext i dq z)) = 1"
  by (subst RETRY_TRANSACTION.simps) (simp add: Let_def split: sum.splits option.splits)

lemma RETRY_second_attempt: "length (fst (RETRY_TRANSACTION ext (Suc 0) dq z)) \<le> 2"
  by (subst RETRY_TRANSACTION.simps)
     (simp add: Let_def RETRY_last_attempt split: sum.splits option.splits)

lemma RETRY_attempts_bound: "length (fst (RETRY_TRANSACTION ext 0 dq z)) \<le> 3"
  using RETRY_second_attempt
  by (subst RETRY_TRANSACTION.simps)
     (auto simp add: Let_def le_Suc_eq split: sum.splits option.splits)

lemma build_batch_subsets:
  "set (a_dequeued (build_batch ext dq)) \<subseteq> set dq"
  "set (a_postponed (build_batch ext dq)) \<subseteq> set dq"
  using build_batch_sets [of ext dq] by auto

lemma RETRY_exit_last:
  "2 \<le> i \<Longrightarrow> set (exit_dequeued (snd (RETRY_TRANSACTION ext i dq z))) \<subseteq> set dq
     \<and> set (exit_postponed (snd (RETRY_TRANSACTION ext i dq z))) \<subseteq> set dq"
  by (subst (1 2) RETRY_TRANSACTION.simps)
     (simp add: Let_def build_batch_subsets split: sum.splits option.splits)

lemma RETRY_exit_second:
  "set (exit_dequeued (snd (RETRY_TRANSACTION ext (Suc 0) dq z))) \<subseteq> set dq
     \<and> set (exit_postponed (snd (RETRY_TRANSACTION ext (Suc 0) dq z))) \<subseteq> set dq"
proof -
  have "set (exit_dequeued (snd (RETRY_TRANSACTION ext (Suc (Suc 0)) (a_dequeued (build_batch ext dq)) z'))) \<subseteq> set dq
     \<and> set (exit_postponed (snd (RETRY_TRANSACTION ext (Suc (Suc 0)) (a_dequeued (build_batch ext dq)) z'))) \<subseteq> set dq" for z'
    using RETRY_exit_last [of "Suc (Suc 0)" ext "a_dequeued (build_batch ext dq)" z']
      build_batch_subsets(1) [of ext dq] by auto
  then show ?thesis
    by (subst (1 2) RETRY_TRANSACTION.simps)
       (simp add: Let_def build_batch_subsets split: sum.splits option.splits)
qed

lemma RETRY_exit_within:
  "set (exit_dequeued (snd (RETRY_TRANSACTION ext 0 dq z))) \<subseteq> set dq
     \<and> set (exit_postponed (snd (RETRY_TRANSACTION ext 0 dq z))) \<subseteq> set dq"
proof -
  have "set (exit_dequeued (snd (RETRY_TRANSACTION ext (Suc 0) (a_dequeued (build_batch ext dq)) z'))) \<subseteq> set dq
     \<and> set (exit_postponed (snd (RETRY_TRANSACTION ext (Suc 0) (a_dequeued (build_batch ext dq)) z'))) \<subseteq> set dq" for z'
    using RETRY_exit_second [of ext "a_dequeued (build_batch ext dq)" z']
      build_batch_subsets(1) [of ext dq] by auto
  then show ?thesis
    by (subst (1 2) RETRY_TRANSACTION.simps)
       (simp add: Let_def build_batch_subsets split: sum.splits option.splits)
qed

lemma check_queue_next_defer: "next_defer (check_queue ext s) = next_defer s"
  by (simp add: check_queue_def Let_def split: loop_exit.splits)

lemma check_queue_handles:
  "set (map fke_granted (a_enqueued (check_queue ext s))) \<subseteq> set (map fke_granted (a_enqueued s))"
  "set (map fst (settled (check_queue ext s)))
     \<subseteq> set (map fst (settled s)) \<union> set (map fke_granted (a_enqueued s))"
  using RETRY_exit_within [of ext "a_enqueued s" None]
  by (auto simp add: check_queue_def Let_def split: loop_exit.splits)

lemma forgotten_step: "forgotten h s \<Longrightarrow> forgotten h (step e s)"
proof (cases e)
  case (Tick ext)
  assume "forgotten h s"
  then show ?thesis
    using check_queue_handles [of ext s] check_queue_next_defer [of ext s] Tick
    unfolding forgotten_def by auto
next
  case (Enqueue m l g)
  assume "forgotten h s"
  then show ?thesis using Enqueue by (auto simp add: forgotten_def enqueue_def)
qed

lemma forgotten_run: "forgotten h s \<Longrightarrow> forgotten h (run es s)"
  by (induction es arbitrary: s) (simp_all add: forgotten_step)

section \<open>One tick that drains the queue\<close>

lemma check_queue_drain:
  assumes "c_clearing s = 0" and "a_enqueued s \<noteq> []"
  shows "signed (check_queue ext s) = signed s @ fst (RETRY_TRANSACTION ext 0 (a_enqueued s) None)"
    and "settled (check_queue ext s) = settled s @
           (case snd (RETRY_TRANSACTION ext 0 (a_enqueued s) None) of
              Caught e dq \<Rightarrow> map (\<lambda>q. (fke_granted q, Inl e)) dq
            | Finished r dq pp \<Rightarrow> map (\<lambda>q. (fke_granted q, Inr r)) dq)"
    and "a_enqueued (check_queue ext s)
           = exit_postponed (snd (RETRY_TRANSACTION ext 0 (a_enqueued s) None))"
  using assms by (simp_all add: check_queue_def Let_def split: loop_exit.splits)

lemma RETRY_first_call:
  "hd (fst (RETRY_TRANSACTION ext i dq z))
     = \<lparr>c_msgs = a_out (build_batch ext dq),
        c_limit = sum_limits (a_dequeued (build_batch ext dq)), c_auth = z\<rparr>"
  by (subst RETRY_TRANSACTION.simps) (simp add: Let_def split: sum.splits option.splits)

lemma first_attempt_throw_caught:
  assumes "create_and_sign_tx_direct ext i
             \<lparr>c_msgs = a_out (build_batch ext dq),
              c_limit = sum_limits (a_dequeued (build_batch ext dq)), c_auth = z\<rparr> = Inl e
           \<or> (\<exists>raw. create_and_sign_tx_direct ext i
                 \<lparr>c_msgs = a_out (build_batch ext dq),
                  c_limit = sum_limits (a_dequeued (build_batch ext dq)), c_auth = z\<rparr> = Inr raw
                \<and> broadcast_result ext i raw = Inl e)"
  shows "snd (RETRY_TRANSACTION ext i dq z) = Caught e (a_dequeued (build_batch ext dq))"
  using assms by (subst RETRY_TRANSACTION.simps) (auto simp add: Let_def)

section \<open>The cooldown counter\<close>

text \<open>
  Claim C5. A tick entered with \<open>c_clearing > 0\<close> only takes one off the counter: the
  queue, the calls of the signer and the settled promises are as before. A tick whose
  retry loop is left without a throw (the last result may be a success or a failure) ends
  with \<open>c_clearing = 1\<close>.
\<close>
theorem cooldown_tick:
  "(0 < c_clearing s \<longrightarrow>
      check_queue ext s = s\<lparr>c_clearing := c_clearing s - 1\<rparr>
      \<and> a_enqueued (check_queue ext s) = a_enqueued s
      \<and> signed (check_queue ext s) = signed s
      \<and> settled (check_queue ext s) = settled s)
   \<and> (c_clearing s = 0 \<and> a_enqueued s \<noteq> []
        \<and> snd (RETRY_TRANSACTION ext 0 (a_enqueued s) None) = Finished a_results dq pp \<longrightarrow>
      c_clearing (check_queue ext s) = 1)"
  by (simp add: check_queue_def Let_def)

theorem cooldown_tick_witness:
  "(0 < c_clearing ((server_of [request 1 ''secret1alice'' 0])\<lparr>c_clearing := 1\<rparr>)
    \<and> check_queue ext_ok ((server_of [request 1 ''secret1alice'' 0])\<lparr>c_clearing := 1\<rparr>)
        = server_of [request 1 ''secret1alice'' 0])
   \<and> (c_clearing (server_of [request 1 ''secret1alice'' 0]) = 0
      \<and> a_enqueued (server_of [request 1 ''secret1alice'' 0]) \<noteq> []
      \<and> snd (RETRY_TRANSACTION ext_ok 0 (a_enqueued (server_of [request 1 ''secret1alice'' 0])) None)
          = Finished tx_ok [request 1 ''secret1alice'' 0] []
      \<and> c_clearing (check_queue ext_ok (server_of [request 1 ''secret1alice'' 0])) = 1)"
proof -
  let ?s = "server_of [request 1 ''secret1alice'' 0]"
  have cool: "0 < c_clearing (?s\<lparr>c_clearing := 1\<rparr>)" by simp
  have same: "(?s\<lparr>c_clearing := 1\<rparr>)\<lparr>c_clearing := c_clearing (?s\<lparr>c_clearing := 1\<rparr>) - 1\<rparr> = ?s"
    by (simp add: server_of_def)
  have idle: "c_clearing ?s = 0" "a_enqueued ?s \<noteq> []"
    by (simp_all add: server_of_def)
  have fin: "snd (RETRY_TRANSACTION ext_ok 0 (a_enqueued ?s) None)
               = Finished tx_ok [request 1 ''secret1alice'' 0] []"
    by code_simp
  from cooldown_tick [of "?s\<lparr>c_clearing := 1\<rparr>" ext_ok] cool same
  have a: "check_queue ext_ok (?s\<lparr>c_clearing := 1\<rparr>) = ?s" by simp
  from cooldown_tick [of ?s ext_ok tx_ok "[request 1 ''secret1alice'' 0]" "[]"] idle fin
  have b: "c_clearing (check_queue ext_ok ?s) = 1" by blast
  from cool a idle fin b show ?thesis by blast
qed

text \<open>
  Claim C10. When the retry loop is left through the \<open>catch\<close> (signing, broadcasting or
  the auth query threw \<open>e\<close>), every tuple still in \<open>a_dequeued\<close> has its promise rejected
  with \<open>e\<close>, \<open>a_enqueued\<close> stays empty and \<open>c_clearing\<close> stays 0; so the next tick after a
  new \<open>enqueue\<close> signs again at once. By \<open>first_attempt_throw_caught\<close> the loop is left
  this way when the first signing or broadcast throws.
\<close>
theorem catastrophic_path_keeps_counter:
  assumes "c_clearing s = 0" and "a_enqueued s \<noteq> []"
    and "snd (RETRY_TRANSACTION ext 0 (a_enqueued s) None) = Caught e dq"
  shows "c_clearing (check_queue ext s) = 0
     \<and> settled (check_queue ext s) = settled s @ map (\<lambda>q. (fke_granted q, Inl e)) dq
     \<and> a_enqueued (check_queue ext s) = []
     \<and> length (signed (check_queue ext s))
         < length (signed (check_queue ext' (snd (enqueue msg lim grantee (check_queue ext s)))))"
proof -
  let ?s1 = "check_queue ext s"
  let ?s2 = "snd (enqueue msg lim grantee ?s1)"
  have c: "c_clearing ?s1 = 0" and q: "a_enqueued ?s1 = []"
    and r: "settled ?s1 = settled s @ map (\<lambda>q. (fke_granted q, Inl e)) dq"
    using assms by (simp_all add: check_queue_def Let_def)
  have "c_clearing ?s2 = 0" "a_enqueued ?s2 \<noteq> []" "signed ?s2 = signed ?s1"
    using c by (simp_all add: enqueue_def)
  then have "signed (check_queue ext' ?s2)
               = signed ?s1 @ fst (RETRY_TRANSACTION ext' 0 (a_enqueued ?s2) None)"
    using check_queue_drain(1) [of ?s2 ext'] by simp
  then have "length (signed ?s1) < length (signed (check_queue ext' ?s2))"
    using RETRY_calls_nonempty [of ext' 0 "a_enqueued ?s2" None] by simp
  with c q r show ?thesis by blast
qed

theorem catastrophic_path_keeps_counter_witness:
  "c_clearing (server_of [request 1 ''secret1alice'' 0]) = 0
   \<and> a_enqueued (server_of [request 1 ''secret1alice'' 0]) \<noteq> []
   \<and> snd (RETRY_TRANSACTION ext_throw 0 (a_enqueued (server_of [request 1 ''secret1alice'' 0])) None)
       = Caught (Error ''fetch failed'') [request 1 ''secret1alice'' 0]
   \<and> c_clearing (check_queue ext_throw (server_of [request 1 ''secret1alice'' 0])) = 0
   \<and> settled (check_queue ext_throw (server_of [request 1 ''secret1alice'' 0]))
       = [(0, Inl (Error ''fetch failed''))]
   \<and> length (signed (check_queue ext_throw (server_of [request 1 ''secret1alice'' 0])))
       < length (signed (check_queue ext_ok (snd (enqueue [2] 15000 ''secret1bob''
           (check_queue ext_throw (server_of [request 1 ''secret1alice'' 0]))))))"
proof -
  let ?s = "server_of [request 1 ''secret1alice'' 0]"
  have h: "c_clearing ?s = 0" "a_enqueued ?s \<noteq> []"
    by (simp_all add: server_of_def)
  have t: "snd (RETRY_TRANSACTION ext_throw 0 (a_enqueued ?s) None)
             = Caught (Error ''fetch failed'') [request 1 ''secret1alice'' 0]"
    by code_simp
  have e: "settled ?s = []" by (simp add: server_of_def)
  from catastrophic_path_keeps_counter [OF h t, of ext_ok "[2]" 15000 "''secret1bob''"] e h t
  show ?thesis by (simp add: request_def)
qed

section \<open>Sequence-mismatch recovery\<close>

text \<open>
  Claim C3. Take an attempt \<open>i\<close> whose signing and broadcast return. If the result has a
  non-zero code, codespace \<open>sdk\<close>, code 32, a log in which \<open>expected <digits>\<close> matches,
  \<open>i < 2\<close>, and the auth query returns, the loop goes round again: the next attempt is
  signed with the fetched account number and the parsed sequence. In every other case the
  loop ends with this result. So a tick signs at most three times, and whenever the loop
  ends with a result (the third sequence mismatch included) every promise still in
  \<open>a_dequeued\<close> is resolved with that result.
\<close>

theorem sequence_mismatch_retry:
  assumes "create_and_sign_tx_direct ext i
             \<lparr>c_msgs = a_out (build_batch ext dq),
              c_limit = sum_limits (a_dequeued (build_batch ext dq)), c_auth = z\<rparr> = Inr raw"
    and "broadcast_result ext i raw = Inr r"
  shows
    "(xc_code r \<noteq> 0 \<and> g_meta r = Some m \<and> codespace m = Some ''sdk'' \<and> code m = Some 32
        \<and> match_expected (case log m of None \<Rightarrow> [] | Some l \<Rightarrow> l) = Some sq
        \<and> i < 2 \<and> auth ext i = Inr a_auth
      \<longrightarrow> RETRY_TRANSACTION ext i dq z
            = (\<lparr>c_msgs = a_out (build_batch ext dq),
                 c_limit = sum_limits (a_dequeued (build_batch ext dq)), c_auth = z\<rparr>
               # fst (RETRY_TRANSACTION ext (Suc i) (a_dequeued (build_batch ext dq))
                        (Some (fst a_auth, sq))),
               snd (RETRY_TRANSACTION ext (Suc i) (a_dequeued (build_batch ext dq))
                        (Some (fst a_auth, sq))))
          \<and> c_auth (hd (fst (RETRY_TRANSACTION ext (Suc i) (a_dequeued (build_batch ext dq))
                        (Some (fst a_auth, sq))))) = Some (fst a_auth, sq))
     \<and> (\<not> (xc_code r \<noteq> 0
             \<and> (\<exists>m'. g_meta r = Some m' \<and> codespace m' = Some ''sdk'' \<and> code m' = Some 32
                   \<and> match_expected (case log m' of None \<Rightarrow> [] | Some l \<Rightarrow> l) \<noteq> None)
             \<and> i < 2)
      \<longrightarrow> RETRY_TRANSACTION ext i dq z
            = ([\<lparr>c_msgs = a_out (build_batch ext dq),
                  c_limit = sum_limits (a_dequeued (build_batch ext dq)), c_auth = z\<rparr>],
               Finished r (a_dequeued (build_batch ext dq)) (a_postponed (build_batch ext dq))))
     \<and> length (fst (RETRY_TRANSACTION ext' 0 dq' None)) \<le> 3
     \<and> (c_clearing s = 0 \<and> a_enqueued s \<noteq> []
          \<and> snd (RETRY_TRANSACTION ext' 0 (a_enqueued s) None) = Finished r' dq1 pp
        \<longrightarrow> settled (check_queue ext' s) = settled s @ map (\<lambda>q. (fke_granted q, Inr r')) dq1
            \<and> length (signed (check_queue ext' s)) \<le> length (signed s) + 3)"
proof -
  let ?call = "\<lparr>c_msgs = a_out (build_batch ext dq),
                 c_limit = sum_limits (a_dequeued (build_batch ext dq)), c_auth = z\<rparr>"
  have retry: "RETRY_TRANSACTION ext i dq z
            = (?call # fst (RETRY_TRANSACTION ext (Suc i) (a_dequeued (build_batch ext dq))
                        (Some (fst a_auth, sq))),
               snd (RETRY_TRANSACTION ext (Suc i) (a_dequeued (build_batch ext dq))
                        (Some (fst a_auth, sq))))"
    if "xc_code r \<noteq> 0" "g_meta r = Some m" "codespace m = Some ''sdk''" "code m = Some 32"
       "match_expected (case log m of None \<Rightarrow> [] | Some l \<Rightarrow> l) = Some sq"
       "i < 2" "auth ext i = Inr a_auth"
  proof -
    have "m_expected i r = Some sq" using that by (simp add: m_expected_def)
    then show ?thesis
      using assms that by (subst RETRY_TRANSACTION.simps) (simp add: Let_def)
  qed
  have final: "RETRY_TRANSACTION ext i dq z
            = ([?call], Finished r (a_dequeued (build_batch ext dq)) (a_postponed (build_batch ext dq)))"
    if "\<not> (xc_code r \<noteq> 0
             \<and> (\<exists>m'. g_meta r = Some m' \<and> codespace m' = Some ''sdk'' \<and> code m' = Some 32
                   \<and> match_expected (case log m' of None \<Rightarrow> [] | Some l \<Rightarrow> l) \<noteq> None)
             \<and> i < 2)"
  proof -
    have "m_expected i r = None \<or> \<not> i < 2"
      using that by (auto simp add: m_expected_def split: option.splits)
    then show ?thesis
      using assms by (subst RETRY_TRANSACTION.simps) (auto simp add: Let_def split: option.splits)
  qed
  have surf: "settled (check_queue ext' s) = settled s @ map (\<lambda>q. (fke_granted q, Inr r')) dq1
            \<and> length (signed (check_queue ext' s)) \<le> length (signed s) + 3"
    if "c_clearing s = 0" "a_enqueued s \<noteq> []"
       "snd (RETRY_TRANSACTION ext' 0 (a_enqueued s) None) = Finished r' dq1 pp"
    using that check_queue_drain(1,2) [of s ext'] RETRY_attempts_bound [of ext' "a_enqueued s" None]
    by simp
  show ?thesis
    using retry final surf RETRY_first_call [of ext "Suc i" "a_dequeued (build_batch ext dq)"
        "Some (fst a_auth, sq)"] RETRY_attempts_bound [of ext' dq' None]
    by (intro conjI impI) simp_all
qed


theorem sequence_mismatch_retry_witness:
  "create_and_sign_tx_direct ext_mismatch 0
      \<lparr>c_msgs = a_out (build_batch ext_mismatch [request 1 ''secret1alice'' 0]),
       c_limit = sum_limits (a_dequeued (build_batch ext_mismatch [request 1 ''secret1alice'' 0])),
       c_auth = None\<rparr> = Inr [0]
   \<and> broadcast_result ext_mismatch 0 [0] = Inr tx_mismatch
   \<and> snd (RETRY_TRANSACTION ext_mismatch 0 (a_enqueued (server_of [request 1 ''secret1alice'' 0])) None)
       = Finished tx_mismatch [request 1 ''secret1alice'' 0] []
   \<and> signed (check_queue ext_mismatch (server_of [request 1 ''secret1alice'' 0]))
       = [\<lparr>c_msgs = [[1]], c_limit = 15000, c_auth = None\<rparr>,
          \<lparr>c_msgs = [[1]], c_limit = 15000, c_auth = Some (''7'', ''5'')\<rparr>,
          \<lparr>c_msgs = [[1]], c_limit = 15000, c_auth = Some (''7'', ''5'')\<rparr>]
   \<and> settled (check_queue ext_mismatch (server_of [request 1 ''secret1alice'' 0]))
       = [(0, Inr tx_mismatch)]"
proof -
  let ?s = "server_of [request 1 ''secret1alice'' 0]"
  have sign: "create_and_sign_tx_direct ext_mismatch 0
      \<lparr>c_msgs = a_out (build_batch ext_mismatch [request 1 ''secret1alice'' 0]),
       c_limit = sum_limits (a_dequeued (build_batch ext_mismatch [request 1 ''secret1alice'' 0])),
       c_auth = None\<rparr> = Inr [0]"
    by (simp add: ext_mismatch_def)
  have bc: "broadcast_result ext_mismatch 0 [0] = Inr tx_mismatch"
    by (simp add: ext_mismatch_def)
  have idle: "c_clearing ?s = 0" "a_enqueued ?s \<noteq> []" "settled ?s = []"
    by (simp_all add: server_of_def)
  have fin: "snd (RETRY_TRANSACTION ext_mismatch 0 (a_enqueued ?s) None)
               = Finished tx_mismatch [request 1 ''secret1alice'' 0] []"
    by code_simp
  have calls: "signed (check_queue ext_mismatch ?s)
       = [\<lparr>c_msgs = [[1]], c_limit = 15000, c_auth = None\<rparr>,
          \<lparr>c_msgs = [[1]], c_limit = 15000, c_auth = Some (''7'', ''5'')\<rparr>,
          \<lparr>c_msgs = [[1]], c_limit = 15000, c_auth = Some (''7'', ''5'')\<rparr>]"
    by code_simp
  from sequence_mismatch_retry [OF sign bc, of _ _ _ ext_mismatch _ ?s tx_mismatch
      "[request 1 ''secret1alice'' 0]" "[]"] idle fin
  have "settled (check_queue ext_mismatch ?s) = [(0, Inr tx_mismatch)]"
    by (simp add: request_def)
  with sign bc fin calls show ?thesis by blast
qed

section \<open>The gas limit of a batch\<close>

text \<open>
  Claim C4, as amended. The gas limit of every attempt is the sum of \<open>xg_limit\<close> over the
  array the attempt starts from, less the sum over the requests that this attempt's batch
  building postponed: the second reduce runs after the first has taken the postponed
  tuples out of \<open>a_dequeued\<close>. For the first attempt of a tick the array is the drained
  queue. Requests with a duplicate payload stay in \<open>a_dequeued\<close> and are counted.
\<close>

theorem gas_limit_excludes_postponed:
  "c_limit (hd (fst (RETRY_TRANSACTION ext i dq z)))
     = sum_list (map xg_limit dq) - sum_list (map xg_limit (a_postponed (build_batch ext dq)))
   \<and> (c_clearing s = 0 \<and> a_enqueued s \<noteq> [] \<longrightarrow>
        (\<exists>rest. signed (check_queue ext s)
           = signed s @
             \<lparr>c_msgs = a_out (build_batch ext (a_enqueued s)),
              c_limit = sum_list (map xg_limit (a_enqueued s))
                        - sum_list (map xg_limit (a_postponed (build_batch ext (a_enqueued s)))),
              c_auth = None\<rparr> # rest))"
proof -
  have lim: "sum_limits (a_dequeued (build_batch ext' dq'))
          = sum_list (map xg_limit dq') - sum_list (map xg_limit (a_postponed (build_batch ext' dq')))"
    for ext' dq'
    using build_batch_limits [of ext' dq'] by (simp add: sum_limits_sum_list)
  have first: "c_limit (hd (fst (RETRY_TRANSACTION ext i dq z)))
     = sum_list (map xg_limit dq) - sum_list (map xg_limit (a_postponed (build_batch ext dq)))"
    by (simp add: RETRY_first_call lim)
  have tick: "\<exists>rest. signed (check_queue ext s)
           = signed s @
             \<lparr>c_msgs = a_out (build_batch ext (a_enqueued s)),
              c_limit = sum_list (map xg_limit (a_enqueued s))
                        - sum_list (map xg_limit (a_postponed (build_batch ext (a_enqueued s)))),
              c_auth = None\<rparr> # rest"
    if "c_clearing s = 0" "a_enqueued s \<noteq> []"
  proof -
    let ?log = "fst (RETRY_TRANSACTION ext 0 (a_enqueued s) None)"
    have "?log = hd ?log # tl ?log"
      using RETRY_calls_nonempty [of ext 0 "a_enqueued s" None] by simp
    then have "signed (check_queue ext s) = signed s @ hd ?log # tl ?log"
      using check_queue_drain(1) [OF that, of ext] by simp
    then show ?thesis
      by (simp add: RETRY_first_call lim)
  qed
  from first tick show ?thesis by blast
qed

theorem gas_limit_excludes_postponed_witness:
  "c_clearing (server_of q_pair) = 0 \<and> a_enqueued (server_of q_pair) \<noteq> []
   \<and> a_postponed (build_batch ext_ok (a_enqueued (server_of q_pair))) = [request 2 ''secret1alice'' 1]
   \<and> (\<exists>rest. signed (check_queue ext_ok (server_of q_pair))
         = signed (server_of q_pair) @ \<lparr>c_msgs = [[1]], c_limit = 30000 - 15000, c_auth = None\<rparr> # rest)"
proof -
  have idle: "c_clearing (server_of q_pair) = 0" "a_enqueued (server_of q_pair) \<noteq> []"
    by (simp_all add: server_of_def q_pair_def)
  have pp: "a_postponed (build_batch ext_ok (a_enqueued (server_of q_pair)))
              = [request 2 ''secret1alice'' 1]"
    by code_simp
  have out: "a_out (build_batch ext_ok (a_enqueued (server_of q_pair))) = [[1]]"
    by code_simp
  have total: "sum_list (map xg_limit (a_enqueued (server_of q_pair))) = 30000"
    by (simp add: server_of_def q_pair_def request_def)
  from gas_limit_excludes_postponed [of ext_ok 0 "[]" None "server_of q_pair"] idle
  have "\<exists>rest. signed (check_queue ext_ok (server_of q_pair))
         = signed (server_of q_pair) @
             \<lparr>c_msgs = a_out (build_batch ext_ok (a_enqueued (server_of q_pair))),
              c_limit = sum_list (map xg_limit (a_enqueued (server_of q_pair)))
                        - sum_list (map xg_limit (a_postponed (build_batch ext_ok (a_enqueued (server_of q_pair))))),
              c_auth = None\<rparr> # rest"
    by blast
  then have "\<exists>rest. signed (check_queue ext_ok (server_of q_pair))
         = signed (server_of q_pair) @ \<lparr>c_msgs = [[1]], c_limit = 30000 - 15000, c_auth = None\<rparr> # rest"
    by (simp add: pp out total request_def)
  with idle pp show ?thesis by blast
qed

text \<open>
  Claim C4 as stated fails: two requests of 15000 each for one grantee are drained, the
  second is postponed, and the transaction is signed with the limit 15000, not 30000.
\<close>

theorem gas_limit_counterexample:
  "c_limit (hd (signed (check_queue ext_ok (server_of q_pair)))) = 15000
   \<and> sum_list (map xg_limit (a_enqueued (server_of q_pair))) = 30000
   \<and> c_limit (hd (signed (check_queue ext_ok (server_of q_pair))))
       \<noteq> sum_list (map xg_limit (a_enqueued (server_of q_pair)))"
  by code_simp

section \<open>Requests the batch builder loses or passes over\<close>

text \<open>
  Claim C1 at a failing input. Two requests for one grantee are enqueued (promises 0 and
  1) and a tick follows whose first broadcast meets a sequence mismatch. The first
  iteration postpones the second request: it leaves \<open>a_dequeued\<close> and enters that
  iteration's \<open>a_postponed\<close>. The \<open>continue\<close> skips \<open>a_enqueued.push(...a_postponed)\<close>, and
  the next iteration starts a new \<open>a_postponed\<close>. Promise 1 is then in no array of the
  server, and whatever ticks and calls of \<open>enqueue\<close> follow, it is never settled.
\<close>

theorem retry_forgets_postponed:
  "fst (enqueue [2] 15000 ''secret1alice'' (snd (enqueue [1] 15000 ''secret1alice'' (server_of [])))) = 1
   \<and> (\<forall>es. 1 \<notin> set (map fst (settled (run
          ([Enqueue [1] 15000 ''secret1alice'', Enqueue [2] 15000 ''secret1alice'', Tick ext_retry] @ es)
          (server_of [])))))"
proof -
  let ?s = "run [Enqueue [1] 15000 ''secret1alice'', Enqueue [2] 15000 ''secret1alice'', Tick ext_retry]
              (server_of [])"
  have h: "fst (enqueue [2] 15000 ''secret1alice'' (snd (enqueue [1] 15000 ''secret1alice'' (server_of [])))) = 1"
    by code_simp
  have "?s = \<lparr>a_enqueued = [], c_clearing = 1, next_defer = 2, settled = [(0, Inr tx_ok)],
     signed = [\<lparr>c_msgs = [[1]], c_limit = 15000, c_auth = None\<rparr>,
               \<lparr>c_msgs = [[1]], c_limit = 15000, c_auth = Some (''7'', ''5'')\<rparr>]\<rparr>"
    by code_simp
  then have "forgotten 1 ?s" by (simp add: forgotten_def)
  then have "forgotten 1 (run es ?s)" for es by (rule forgotten_run)
  moreover have "run (xs @ es) s0 = run es (run xs s0)" for xs es s0
    by (induction xs arbitrary: s0) simp_all
  ultimately have "\<forall>es. 1 \<notin> set (map fst (settled (run
          ([Enqueue [1] 15000 ''secret1alice'', Enqueue [2] 15000 ''secret1alice'', Tick ext_retry] @ es)
          (server_of []))))"
    unfolding forgotten_def by metis
  with h show ?thesis by blast
qed

text \<open>
  Claim C2 at a failing input. Three requests for one grantee, with three different
  payloads. The second is postponed and spliced out of the array under the reduce, so the
  third moves to the index just visited and the reduce never hands it to the callback: a
  later request for a claimed grantee with a distinct payload that is neither postponed
  nor removed from \<open>a_dequeued\<close>. Its promise is resolved with the result of a transaction
  that holds the first payload only.
\<close>

theorem collision_after_postponed_is_skipped:
  "a_out (build_batch ext_ok q_three) = [[1]]
   \<and> a_postponed (build_batch ext_ok q_three) = [request 2 ''secret1alice'' 1]
   \<and> a_dequeued (build_batch ext_ok q_three)
       = [request 1 ''secret1alice'' 0, request 3 ''secret1alice'' 2]
   \<and> signed (check_queue ext_ok (server_of q_three))
       = [\<lparr>c_msgs = [[1]], c_limit = 30000, c_auth = None\<rparr>]
   \<and> settled (check_queue ext_ok (server_of q_three)) = [(0, Inr tx_ok), (2, Inr tx_ok)]
   \<and> a_enqueued (check_queue ext_ok (server_of q_three)) = [request 2 ''secret1alice'' 1]"
  by code_simp

text \<open>
  Claim C6 at a failing input. Four requests for one grantee; the fourth has the payload
  of the third. The second is postponed, so the third is passed over and its encoding
  never enters \<open>as_msgs\<close>; the fourth is then not taken for a duplicate but postponed.
  Its promise is not resolved with the result of this batch: it goes back to
  \<open>a_enqueued\<close>.
\<close>

theorem duplicate_after_skipped_is_postponed:
  "atu8_msg (q_four ! 3) = atu8_msg (q_four ! 2)
   \<and> a_out (build_batch ext_ok q_four) = [[1]]
   \<and> a_postponed (build_batch ext_ok q_four)
       = [request 2 ''secret1alice'' 1, request 3 ''secret1alice'' 3]
   \<and> settled (check_queue ext_ok (server_of q_four)) = [(0, Inr tx_ok), (2, Inr tx_ok)]
   \<and> a_enqueued (check_queue ext_ok (server_of q_four))
       = [request 2 ''secret1alice'' 1, request 3 ''secret1alice'' 3]"
  by code_simp

section \<open>The claim procedure\<close>

lemma string_of_nat_500000: "string_of_nat 500000 = ''500000''"
  by (simp add: string_of_nat.simps [of 500000] string_of_nat.simps [of 50000]
       string_of_nat.simps [of 5000] string_of_nat.simps [of 500] string_of_nat.simps [of 50]
       string_of_nat.simps [of 5] digit_char_def)

text \<open>
  Claim C7. When the address is valid and the query finds a basic allowance whose first
  spend limit has the amount \<open>XG_ALLOWANCE\<close> (as a decimal string) and whose expiration is
  more than 3600000 ms after \<open>Date.now()\<close>, \<open>claim\<close> replies 400 with the error
  \<open>Existing feegrant is full and hasn't expired yet\<close> and leaves the server as it was:
  nothing is enqueued.
\<close>

theorem full_unexpired_allowance_rejected:
  assumes "verify_address cx sa_addr"
    and "queryCosmosFeegrantAllowance cx (k_wallet_addr cfg) sa_addr = Inr (Some g)"
    and "allowance g = Some g_allowance"
    and "at_type g_allowance = SI_MESSAGE_TYPE_COSMOS_FEEGRANT_BASIC_ALLOWANCE"
    and "spend_limit g_allowance = Some (c # cs)"
    and "amount c = string_of_bigint (XG_ALLOWANCE cfg)"
    and "Date_getTime cx (expiration g_allowance) = Some xt_expiration"
    and "xt_expiration - xt_now > 3600000"
  shows "claim cfg cx xt_now sa_addr s
           = (Replied \<lparr>status = 400,
                       headers = [(''access-control-allow-origin'', ''*''),
                                  (''access-control-allow-methods'', ''GET'')],
                       body = ErrorBody ''Existing feegrant is full and hasn't expired yet''\<rparr>, s)
         \<and> a_enqueued (snd (claim cfg cx xt_now sa_addr s)) = a_enqueued s"
  using assms by (simp add: claim_def first_amount_def send_def)

theorem full_unexpired_allowance_rejected_witness:
  "verify_address cx0 ''secret1alice''
   \<and> queryCosmosFeegrantAllowance cx0 (k_wallet_addr cfg0) ''secret1alice''
       = Inr (Some \<lparr>allowance = Some full_allowance\<rparr>)
   \<and> amount \<lparr>denom = ''uscrt'', amount = ''500000''\<rparr> = string_of_bigint (XG_ALLOWANCE cfg0)
   \<and> Date_getTime cx0 (expiration full_allowance) = Some 10000000
   \<and> (10000000::int) - 6000000 > 3600000
   \<and> claim cfg0 cx0 6000000 ''secret1alice'' (server_of [])
       = (Replied \<lparr>status = 400,
                   headers = [(''access-control-allow-origin'', ''*''),
                              (''access-control-allow-methods'', ''GET'')],
                   body = ErrorBody ''Existing feegrant is full and hasn't expired yet''\<rparr>,
          server_of [])"
proof -
  have v: "verify_address cx0 ''secret1alice''" by code_simp
  have q: "queryCosmosFeegrantAllowance cx0 (k_wallet_addr cfg0) ''secret1alice''
             = Inr (Some \<lparr>allowance = Some full_allowance\<rparr>)"
    by (simp add: cx0_def)
  have a: "allowance \<lparr>allowance = Some full_allowance\<rparr> = Some full_allowance" by simp
  have t: "at_type full_allowance = SI_MESSAGE_TYPE_COSMOS_FEEGRANT_BASIC_ALLOWANCE"
    by (simp add: full_allowance_def SI_MESSAGE_TYPE_COSMOS_FEEGRANT_BASIC_ALLOWANCE_def)
  have l: "spend_limit full_allowance = Some (\<lparr>denom = ''uscrt'', amount = ''500000''\<rparr> # [])"
    by (simp add: full_allowance_def)
  have m: "amount \<lparr>denom = ''uscrt'', amount = ''500000''\<rparr> = string_of_bigint (XG_ALLOWANCE cfg0)"
    by (simp add: cfg0_def string_of_bigint_def string_of_nat_500000)
  have d: "Date_getTime cx0 (expiration full_allowance) = Some 10000000"
    by (simp add: cx0_def full_allowance_def)
  have r: "(10000000::int) - 6000000 > 3600000" by simp
  from full_unexpired_allowance_rejected [OF v q a t l m d r, of "server_of []"]
  have "claim cfg0 cx0 6000000 ''secret1alice'' (server_of [])
       = (Replied \<lparr>status = 400,
                   headers = [(''access-control-allow-origin'', ''*''),
                              (''access-control-allow-methods'', ''GET'')],
                   body = ErrorBody ''Existing feegrant is full and hasn't expired yet''\<rparr>,
          server_of [])"
    by (rule conjunct1)
  with v q m d r show ?thesis by (intro conjI)
qed

text \<open>
  With one hour or less to go the same allowance is not kept: \<open>claim\<close> enqueues the
  revocation and awaits it.
\<close>

lemma allowance_expiring_within_the_hour_is_revoked:
  assumes "verify_address cx sa_addr"
    and "queryCosmosFeegrantAllowance cx (k_wallet_addr cfg) sa_addr = Inr (Some g)"
    and "allowance g = Some g_allowance"
    and "at_type g_allowance = SI_MESSAGE_TYPE_COSMOS_FEEGRANT_BASIC_ALLOWANCE"
    and "Date_getTime cx (expiration g_allowance) = Some xt_expiration"
    and "xt_expiration - xt_now \<le> 3600000"
  shows "claim cfg cx xt_now sa_addr s
           = (Awaiting (next_defer s) AwaitRevoke,
              snd (enqueue (encode_revoke cx (k_wallet_addr cfg) sa_addr) 15000 sa_addr s))"
  using assms by (simp add: claim_def Let_def enqueue_def XG_LIMIT_REVOKE_def)

text \<open>
  Claim C8. An address that does not start with \<open>secret1\<close>, or that \<open>bech32_decode\<close>
  throws on, or that decodes to other than 20 bytes, gets the reply 400 with the error
  \<open>Invalid bech32 address\<close>; the server, and so the queue, is unchanged.
\<close>

theorem invalid_address_rejected:
  assumes "take 7 sa_addr \<noteq> ''secret1''
           \<or> (\<exists>e. bech32_decode cx sa_addr = Inl e)
           \<or> (\<exists>atu8_data. bech32_decode cx sa_addr = Inr atu8_data \<and> length atu8_data \<noteq> 20)"
  shows "claim cfg cx xt_now sa_addr s
           = (Replied \<lparr>status = 400,
                       headers = [(''access-control-allow-origin'', ''*''),
                                  (''access-control-allow-methods'', ''GET'')],
                       body = ErrorBody ''Invalid bech32 address''\<rparr>, s)
         \<and> a_enqueued (snd (claim cfg cx xt_now sa_addr s)) = a_enqueued s"
proof -
  have "\<not> verify_address cx sa_addr"
    using assms by (auto simp add: verify_address_def)
  then show ?thesis by (simp add: claim_def send_def)
qed

theorem invalid_address_rejected_witness:
  "take 7 ''abc'' \<noteq> ''secret1''
   \<and> bech32_decode cx0 ''secret1bob'' = Inl (Error ''invalid checksum'')
   \<and> bech32_decode cx0 ''secret1short'' = Inr (replicate 19 0)
   \<and> claim cfg0 cx0 0 ''abc'' (server_of [request 1 ''secret1alice'' 0])
       = (Replied (send 400 (ErrorBody ''Invalid bech32 address'')),
          server_of [request 1 ''secret1alice'' 0])
   \<and> claim cfg0 cx0 0 ''secret1bob'' (server_of [request 1 ''secret1alice'' 0])
       = (Replied (send 400 (ErrorBody ''Invalid bech32 address'')),
          server_of [request 1 ''secret1alice'' 0])
   \<and> claim cfg0 cx0 0 ''secret1short'' (server_of [request 1 ''secret1alice'' 0])
       = (Replied (send 400 (ErrorBody ''Invalid bech32 address'')),
          server_of [request 1 ''secret1alice'' 0])"
proof -
  let ?s = "server_of [request 1 ''secret1alice'' 0]"
  have p: "take 7 ''abc'' \<noteq> ''secret1''" by simp
  have e: "bech32_decode cx0 ''secret1bob'' = Inl (Error ''invalid checksum'')"
    by (simp add: cx0_def)
  have n: "bech32_decode cx0 ''secret1short'' = Inr (replicate 19 0)"
    by (simp add: cx0_def)
  have c1: "claim cfg0 cx0 0 ''abc'' ?s = (Replied (send 400 (ErrorBody ''Invalid bech32 address'')), ?s)"
    unfolding send_def
    by (rule conjunct1 [OF invalid_address_rejected]) (rule disjI1, rule p)
  have c2: "claim cfg0 cx0 0 ''secret1bob'' ?s = (Replied (send 400 (ErrorBody ''Invalid bech32 address'')), ?s)"
    unfolding send_def
    by (rule conjunct1 [OF invalid_address_rejected]) (rule disjI2, rule disjI1, rule exI, rule e)
  have len: "length (replicate 19 (0::8 word)) \<noteq> 20" by simp
  have c3: "claim cfg0 cx0 0 ''secret1short'' ?s = (Replied (send 400 (ErrorBody ''Invalid bech32 address'')), ?s)"
    unfolding send_def
    by (rule conjunct1 [OF invalid_address_rejected])
       (rule disjI2, rule disjI2, rule exI, rule conjI, rule n, rule len)
  from p e n c1 c2 c3 show ?thesis by (intro conjI)
qed

text \<open>
  Claim C9. \<open>POST /claim\<close> with \<open>address\<close> in the body and \<open>GET /claim/:address\<close> with
  the same address in the path give the same outcome (reply, throw or await) and the same
  server state.
\<close>

theorem post_route_is_get_route:
  "route_post cfg cx xt_now \<lparr>body_address = a\<rparr> s = route_get cfg cx xt_now \<lparr>params_address = a\<rparr> s"
  by (simp add: route_post_def route_get_def)

end
